theory Spec2Isabelle
  imports Complex_Main "HOL-Library.Multiset"
begin

section \<open>The face detection pipeline of \<^verbatim>\<open>face.py\<close> and the routines of \<^verbatim>\<open>iproc.py\<close>\<close>

text \<open>
  The stages of the pipeline are Python classes with a \<^verbatim>\<open>doTask\<close> method; each is
  embedded as a function from the values it reads (the shared table, the task, the
  stage's own attributes, the clock) to the values it leaves behind (what it returns or
  raises, what it prints, what it stores in its attributes). Calls into OpenCV are
  parameters of the functions that make them, or effects recorded in the result.
\<close>

subsection \<open>Exceptions, timestamps, the shared table\<close>

text \<open>The Python exceptions that the embedded code can raise.\<close>

datatype pyerr = KeyError | TypeError | ValueError | UnboundLocalError | CvError

text \<open>
  A timestamp is a \<^verbatim>\<open>datetime.datetime\<close>, a timedelta a \<^verbatim>\<open>datetime.timedelta\<close>: both count
  whole microseconds, and their arithmetic is exact.
\<close>

type_synonym tstamp = int
type_synonym timedelta = int

text \<open>
  The value stored under a timestamp (lines 182-185 of \<^verbatim>\<open>face.py\<close>): a dictionary with
  exactly the keys \<^verbatim>\<open>image_in\<close> and \<^verbatim>\<open>image_pre\<close>.
\<close>

record 'img frame =
  image_in :: 'img
  image_pre :: 'img

text \<open>\<^verbatim>\<open>common = manager.dict()\<close>: a dictionary keyed on timestamps.\<close>

type_synonym 'img table = "tstamp \<rightharpoonup> 'img frame"

text \<open>\<^verbatim>\<open>common[now] = {...}\<close> (line 182): item assignment of a dictionary.\<close>

definition common_setitem :: "'img table \<Rightarrow> tstamp \<Rightarrow> 'img frame \<Rightarrow> pyerr + 'img table" where
  "common_setitem common now fr = Inr (common(now \<mapsto> fr))"

text \<open>\<^verbatim>\<open>common[tstamp]\<close> (lines 30, 42, 71, 86): raises \<^verbatim>\<open>KeyError\<close> on a missing key.\<close>

definition common_getitem :: "'img table \<Rightarrow> tstamp \<Rightarrow> pyerr + 'img frame" where
  "common_getitem common t = (case common t of None \<Rightarrow> Inl KeyError | Some fr \<Rightarrow> Inr fr)"

text \<open>\<^verbatim>\<open>del common[tstamp]\<close> (line 149): raises \<^verbatim>\<open>KeyError\<close> on a missing key.\<close>

definition common_delitem :: "'img table \<Rightarrow> tstamp \<Rightarrow> pyerr + 'img table" where
  "common_delitem common t =
     (case common t of None \<Rightarrow> Inl KeyError | Some fr \<Rightarrow> Inr (common(t := None)))"

subsection \<open>The detector stage\<close>

text \<open>
  \<^verbatim>\<open>Detector.doTask\<close> (lines 39-58). The classifier's \<^verbatim>\<open>detectMultiScale\<close> is the
  parameter \<open>classifier\<close>: given the preprocessed image (the other arguments are constants
  or computed from the image's shape) it raises or returns rows \<open>(a, b, c, d)\<close>. The
  result pairs the lines printed with what \<^verbatim>\<open>doTask\<close> returns or raises.

  The \<^verbatim>\<open>try\<close> block binds \<^verbatim>\<open>rects\<close> on its third line, after the lookup
  \<^verbatim>\<open>common[tstamp]\<close>; the bare \<^verbatim>\<open>except\<close> prints and falls through to
  \<^verbatim>\<open>return rects\<close>, outside the \<^verbatim>\<open>try\<close>. When the lookup raised, the name is
  unbound there and the \<^verbatim>\<open>return\<close> raises \<^verbatim>\<open>UnboundLocalError\<close>.
\<close>

type_synonym box = "int \<times> int \<times> int \<times> int"

definition Detector_doTask ::
  "('img \<Rightarrow> pyerr + box list) \<Rightarrow> 'c \<Rightarrow> 'img table \<Rightarrow> tstamp
     \<Rightarrow> string list \<times> (pyerr + (int \<times> int \<times> int \<times> int \<times> 'c) list)" where
  "Detector_doTask classifier color common t =
     (case common_getitem common t of
        Inl e \<Rightarrow> ([''Error in detector!!!!!!!!!!!!''], Inl UnboundLocalError)
      | Inr fr \<Rightarrow>
          (case classifier (image_pre fr) of
             Inl e \<Rightarrow> ([''Error in detector!!!!!!!!!!!!''], Inr [])
           | Inr r \<Rightarrow> ([], Inr (map (\<lambda>(a, b, c, d). (a, b, c, d, color)) r))))"

subsection \<open>The aggregating stage\<close>

text \<open>
  The task of \<^verbatim>\<open>Postprocessor.doTask\<close> is a pair of a timestamp and whatever the
  detector filter stage collected; the method tests it for truth, iterates it twice and
  unpacks its items, and its attribute \<^verbatim>\<open>_prev_rects\<close> holds once the nested value and
  once the flat one. So the values are Python values, typed at run time: integers, tuples
  and lists.
\<close>

datatype pyval = PInt int | PTuple "pyval list" | PList "pyval list"

text \<open>\<^verbatim>\<open>not rects\<close>: an empty sequence and the integer zero are false.\<close>

fun truthy :: "pyval \<Rightarrow> bool" where
  "truthy (PInt n) = (n \<noteq> 0)"
| "truthy (PTuple xs) = (xs \<noteq> [])"
| "truthy (PList xs) = (xs \<noteq> [])"

text \<open>\<^verbatim>\<open>for item in v\<close>: the items of a tuple or a list; an integer is not iterable.\<close>

fun py_iter :: "pyval \<Rightarrow> pyerr + pyval list" where
  "py_iter (PInt n) = Inl TypeError"
| "py_iter (PTuple xs) = Inr xs"
| "py_iter (PList xs) = Inr xs"

text \<open>
  \<^verbatim>\<open>x1, y1, x2, y2, color = item\<close>: the target list of the \<^verbatim>\<open>for\<close> statement. Unpacking
  iterates the item (\<^verbatim>\<open>TypeError\<close> for an integer) and needs exactly five values
  (\<^verbatim>\<open>ValueError\<close> otherwise).
\<close>

fun unpack5 :: "pyval \<Rightarrow> pyerr + (pyval \<times> pyval \<times> pyval \<times> pyval \<times> pyval)" where
  "unpack5 v =
     (case py_iter v of
        Inl e \<Rightarrow> Inl e
      | Inr [x1, y1, x2, y2, color] \<Rightarrow> Inr (x1, y1, x2, y2, color)
      | Inr _ \<Rightarrow> Inl ValueError)"

text \<open>\<^verbatim>\<open>a + b\<close>: integer addition, or concatenation of two tuples or of two lists.\<close>

fun py_add :: "pyval \<Rightarrow> pyval \<Rightarrow> pyerr + pyval" where
  "py_add (PInt a) (PInt b) = Inr (PInt (a + b))"
| "py_add (PTuple xs) (PTuple ys) = Inr (PTuple (xs @ ys))"
| "py_add (PList xs) (PList ys) = Inr (PList (xs @ ys))"
| "py_add _ _ = Inl TypeError"

text \<open>
  \<^verbatim>\<open>[item for sublist in rects for item in sublist]\<close> (line 68), over the items of
  \<^verbatim>\<open>rects\<close>: every one of them is iterated in turn.
\<close>

fun flatten :: "pyval list \<Rightarrow> pyerr + pyval list" where
  "flatten [] = Inr []"
| "flatten (sublist # rest) =
     (case py_iter sublist of
        Inl e \<Rightarrow> Inl e
      | Inr items \<Rightarrow> (case flatten rest of Inl e \<Rightarrow> Inl e | Inr others \<Rightarrow> Inr (items @ others)))"

text \<open>
  A call \<^verbatim>\<open>cv2.rectangle(common[tstamp]['image_in'], (x1, y1), (x1+x2, y1+y2), color=color,
  thickness=2)\<close> draws on the input image of the timestamp, in place. The model records the
  call: the timestamp whose image is drawn on, the two corners and the colour.
\<close>

datatype draw = Rectangle tstamp "pyval \<times> pyval" "pyval \<times> pyval" pyval

text \<open>
  The loop of lines 69-75. Each round unpacks the item, evaluates the arguments of the
  call from left to right (the lookup in the table, then the two sums) and draws. The
  result is the calls made and the exception that ended the loop, if one did.
\<close>

fun draw_rects :: "'img table \<Rightarrow> tstamp \<Rightarrow> pyval list \<Rightarrow> draw list \<times> pyerr option" where
  "draw_rects common t [] = ([], None)"
| "draw_rects common t (item # rest) =
     (case unpack5 item of
        Inl e \<Rightarrow> ([], Some e)
      | Inr (x1, y1, x2, y2, color) \<Rightarrow>
          (case common_getitem common t of
             Inl e \<Rightarrow> ([], Some e)
           | Inr fr \<Rightarrow>
               (case py_add x1 x2 of
                  Inl e \<Rightarrow> ([], Some e)
                | Inr xr \<Rightarrow>
                    (case py_add y1 y2 of
                       Inl e \<Rightarrow> ([], Some e)
                     | Inr yb \<Rightarrow>
                         (case draw_rects common t rest of
                            (ds, r) \<Rightarrow> (Rectangle t (x1, y1) (xr, yb) color # ds, r))))))"

text \<open>The attribute of a \<^verbatim>\<open>Postprocessor\<close>; \<^verbatim>\<open>__init__\<close> sets it to the empty list.\<close>

record postprocessor =
  prev_rects :: "pyval list"

definition Postprocessor_init :: postprocessor where
  "Postprocessor_init = \<lparr>prev_rects = []\<rparr>"

text \<open>
  \<^verbatim>\<open>Postprocessor.doTask\<close> (lines 65-77). The test \<^verbatim>\<open>not rects\<close> is made on the task's
  value as it arrives, before it is flattened; the value that replaces an empty one is
  the attribute, which line 76 sets to the flattened list; and line 68 flattens whichever
  of the two was chosen. The result is the drawing calls made and either the exception
  raised (the attribute is not assigned then) or the new attribute and the timestamp
  returned.
\<close>

definition Postprocessor_doTask ::
  "postprocessor \<Rightarrow> 'img table \<Rightarrow> tstamp \<times> pyval \<Rightarrow> draw list \<times> (pyerr + postprocessor \<times> tstamp)" where
  "Postprocessor_doTask self common task =
     (case task of (t, rects0) \<Rightarrow>
        (let rects1 = (if \<not> truthy rects0 then PList (prev_rects self) else rects0) in
         case py_iter rects1 of
           Inl e \<Rightarrow> ([], Inl e)
         | Inr sublists \<Rightarrow>
             (case flatten sublists of
                Inl e \<Rightarrow> ([], Inl e)
              | Inr rects \<Rightarrow>
                  (case draw_rects common t rects of
                     (ds, Some e) \<Rightarrow> (ds, Inl e)
                   | (ds, None) \<Rightarrow> (ds, Inr (self\<lparr>prev_rects := rects\<rparr>, t))))))"


subsection \<open>The stalling stage\<close>

text \<open>
  \<^verbatim>\<open>Staller.doTask\<close> (lines 95-102). \<open>now\<close> is what \<^verbatim>\<open>datetime.datetime.now()\<close> returns
  on line 98, \<^verbatim>\<open>datetime.timedelta(seconds=2)\<close> is two million microseconds and
  \<^verbatim>\<open>datetime.timedelta()\<close> is zero. The call \<^verbatim>\<open>time.sleep(duration.total_seconds())\<close> is
  an effect: the result lists the durations the method asked to sleep for, in order (none
  or one), beside the timestamp returned.
\<close>

definition Staller_doTask :: "tstamp \<Rightarrow> tstamp \<times> 'r \<Rightarrow> timedelta list \<times> tstamp" where
  "Staller_doTask now task =
     (case task of (t, results) \<Rightarrow>
        (let delta = now - t;
             duration = 2000000 - delta
         in (if duration > 0 then [duration] else [], t)))"


subsection \<open>The status stage\<close>

text \<open>
  Modelled from the spec: \<^verbatim>\<open>util.RateTicker\<close> (the module \<^verbatim>\<open>util\<close> is not among the
  sources). It keeps one sliding window per period, a period being a number of seconds;
  \<^verbatim>\<open>tick()\<close> records the current instant in every window, evicts from every window the
  instants older than its period, and returns for every window the number of instants in
  it divided by its period. Rates are Python floats; the model takes them as the
  rational numbers they stand for.
\<close>

record rateticker =
  windows :: "(nat \<times> tstamp list) list"

definition RateTicker :: "nat list \<Rightarrow> rateticker" where
  "RateTicker periods = \<lparr>windows = map (\<lambda>p. (p, [])) periods\<rparr>"

definition tick :: "rateticker \<Rightarrow> tstamp \<Rightarrow> rat list \<times> rateticker" where
  "tick self now =
     (let ws = map (\<lambda>(p, ts). (p, filter (\<lambda>t. now - t \<le> int p * 1000000) (ts @ [now])))
                (windows self)
      in (map (\<lambda>(p, ts). of_nat (length ts) / of_nat p) ws, self\<lparr>windows := ws\<rparr>))"


text \<open>\<^verbatim>\<open>framerate = util.RateTicker((1,5,10))\<close> (line 105).\<close>

definition framerate :: rateticker where
  "framerate = RateTicker [1, 5, 10]"

text \<open>
  The conversion \<^verbatim>\<open>%05.3f\<close> of the format string on line 109: fixed notation with three
  digits after the point, the value rounded to the nearest thousandth (a tie to the even
  one), a minus sign for a negative value, and zeros on the left, after the sign, up to
  a width of five characters.
\<close>

definition round_half_even :: "rat \<Rightarrow> int" where
  "round_half_even x =
     (let f = \<lfloor>x\<rfloor>; d = x - of_int f
      in if d < 1 / 2 then f else if 1 / 2 < d then f + 1 else if even f then f else f + 1)"

definition digit :: "nat \<Rightarrow> char" where
  "digit d = ''0123456789'' ! d"

fun show_nat :: "nat \<Rightarrow> string" where
  "show_nat n = (if n < 10 then [digit n] else show_nat (n div 10) @ [digit (n mod 10)])"

definition format_05_3f :: "rat \<Rightarrow> string" where
  "format_05_3f x =
     (let m = nat (round_half_even (\<bar>x\<bar> * 1000));
          frac = show_nat (m mod 1000);
          body = show_nat (m div 1000) @ ''.'' @ replicate (3 - length frac) CHR ''0'' @ frac;
          sign = (if x < 0 then ''-'' else [])
      in sign @ replicate (5 - length sign - length body) CHR ''0'' @ body)"

text \<open>
  \<^verbatim>\<open>'%05.3f, %05.3f, %05.3f' % args\<close>: the tuple must hold exactly three values
  (\<^verbatim>\<open>TypeError\<close> otherwise).
\<close>

definition format_status :: "rat list \<Rightarrow> pyerr + string" where
  "format_status args =
     (case args of
        [a, b, c] \<Rightarrow> Inr (format_05_3f a @ '', '' @ format_05_3f b @ '', '' @ format_05_3f c)
      | _ \<Rightarrow> Inl TypeError)"

text \<open>
  \<^verbatim>\<open>printStatus\<close> (lines 107-110), with the module's ticker and the instant of the
  tick as arguments. The result is the lines printed, what the function returns or
  raises, and the ticker afterwards.
\<close>

definition printStatus ::
  "rateticker \<Rightarrow> tstamp \<Rightarrow> tstamp \<Rightarrow> (string list \<times> (pyerr + tstamp)) \<times> rateticker" where
  "printStatus fr now t =
     (case tick fr now of (rates, fr') \<Rightarrow>
        (case format_status rates of
           Inl e \<Rightarrow> (([], Inl e), fr')
         | Inr line \<Rightarrow> (([line], Inr t), fr')))"



subsection \<open>Shutting the pipelines down\<close>

text \<open>
  The pipelines that the main program feeds and drains: the image processing pipeline,
  the pipeline of the reclaiming process, one detector pipeline per classifier (their
  number is the length of \<^verbatim>\<open>cascade.classifiers\<close>, a module that is not among the
  sources, hence a parameter), and the viewer's pipeline.
\<close>

datatype pipeline = Pipe_iproc | Pipe_pull | Detector_pipe nat | Pipe_viewer

text \<open>
  What the main program does to a pipeline: \<^verbatim>\<open>pipe.put(task)\<close>, where the task \<^verbatim>\<open>None\<close>
  is the stop task, and \<^verbatim>\<open>for result in pipe.results(): pass\<close>, which returns once the
  pipeline has no more results to give. The program's state, as far as the pipelines see
  it, is the list of these operations so far.
\<close>

datatype operation = Put pipeline "tstamp option" | Drain pipeline

text \<open>The list built by lines 112-119.\<close>

definition detector_pipes :: "nat \<Rightarrow> pipeline list" where
  "detector_pipes n = map Detector_pipe [0..<n]"

text \<open>The loop of lines 195-198.\<close>

fun stop_detectors :: "pipeline list \<Rightarrow> operation list \<Rightarrow> operation list" where
  "stop_detectors [] ops = ops"
| "stop_detectors (pipe # rest) ops = stop_detectors rest (ops @ [Put pipe None] @ [Drain pipe])"

text \<open>Lines 192-201, from the operations made so far to the operations at exit.\<close>

definition shutdown :: "nat \<Rightarrow> operation list \<Rightarrow> operation list" where
  "shutdown n ops0 =
     (let ops1 = ops0 @ [Put Pipe_iproc None];
          ops2 = ops1 @ [Drain Pipe_pull];
          ops3 = stop_detectors (detector_pipes n) ops2;
          ops4 = ops3 @ [Put Pipe_viewer None];
          ops5 = ops4 @ [Drain Pipe_viewer]
      in ops5)"

subsection \<open>Preprocessing, in place and as a function\<close>

text \<open>
  \<^verbatim>\<open>iproc.preprocess\<close> (lines 16-27) and \<^verbatim>\<open>iproc.preprocess2\<close> (lines 29-39). The two
  OpenCV transforms are parameters: \<open>bgr2gray\<close> is \<^verbatim>\<open>cv2.cvtColor\<close> with the code
  \<^verbatim>\<open>cv2.COLOR_BGR2GRAY\<close>, \<open>equalize\<close> is \<^verbatim>\<open>cv2.equalizeHist\<close>. An image argument is a
  reference to an array (\<open>array_in\<close>, \<open>array_out\<close>); the heap gives the contents of
  every array. Called with a
  destination, a transform stores its result in the destination array: the caller has
  allocated it with the shape and the type of the result, as lines 175-176 of \<^verbatim>\<open>face.py\<close>
  do for the arrays that \<^verbatim>\<open>Preprocessor.doTask\<close> passes.
\<close>

type_synonym ('r, 'img) heap = "'r \<Rightarrow> 'img"

definition transform_into ::
  "('img \<Rightarrow> 'img) \<Rightarrow> ('r, 'img) heap \<Rightarrow> 'r \<Rightarrow> 'r \<Rightarrow> ('r, 'img) heap" where
  "transform_into f h src dst = h(dst := f (h src))"

definition preprocess ::
  "('img \<Rightarrow> 'img) \<Rightarrow> ('img \<Rightarrow> 'img) \<Rightarrow> ('r, 'img) heap \<Rightarrow> 'r \<Rightarrow> 'r \<Rightarrow> ('r, 'img) heap" where
  "preprocess bgr2gray equalize h array_in array_out =
     (let h1 = transform_into bgr2gray h array_in array_out;
          h2 = transform_into equalize h1 array_out array_out
      in h2)"

definition preprocess2 :: "('img \<Rightarrow> 'img) \<Rightarrow> ('img \<Rightarrow> 'img) \<Rightarrow> 'img \<Rightarrow> 'img" where
  "preprocess2 bgr2gray equalize img_in =
     (let image_gray = bgr2gray img_in;
          image_out = equalize image_gray
      in image_out)"

subsection \<open>Filtering the contours\<close>

text \<open>
  Lines 61-79 of \<^verbatim>\<open>iproc.postprocess\<close>. \<^verbatim>\<open>cv2.contourArea\<close> is the parameter
  \<open>contourArea\<close>; areas and the threshold are Python floats, taken as the rational
  numbers they stand for. \<open>rows\<close> and \<open>cols\<close> are \<^verbatim>\<open>image_thresh.shape[0]\<close> and
  \<^verbatim>\<open>image_thresh.shape[1]\<close>.
\<close>

definition area_threshold :: "nat \<Rightarrow> nat \<Rightarrow> rat" where
  "area_threshold rows cols = of_nat (rows * cols) * (5 / 100000 / 2)"

text \<open>
  \<^verbatim>\<open>sorted(contours, key=..., reverse=True)\<close>: a stable sort in descending order of the
  key, in which items of equal key keep their order. Python reverses the list, sorts it
  in ascending order with a stable sort, and reverses the result.
\<close>

definition sorted_reverse :: "('a \<Rightarrow> rat) \<Rightarrow> 'a list \<Rightarrow> 'a list" where
  "sorted_reverse key xs = rev (sort_key key (rev xs))"

text \<open>The loop of lines 70-79: \<^verbatim>\<open>break\<close> at the first area below the threshold.\<close>

fun filter_contours :: "('c \<Rightarrow> rat) \<Rightarrow> rat \<Rightarrow> 'c list \<Rightarrow> 'c list \<Rightarrow> 'c list" where
  "filter_contours contourArea thr [] filtered = filtered"
| "filter_contours contourArea thr (contour # rest) filtered =
     (if contourArea contour < thr then filtered
      else filter_contours contourArea thr rest (filtered @ [contour]))"

definition postprocess_filtered :: "('c \<Rightarrow> rat) \<Rightarrow> nat \<Rightarrow> nat \<Rightarrow> 'c list \<Rightarrow> 'c list" where
  "postprocess_filtered contourArea rows cols contours =
     filter_contours contourArea (area_threshold rows cols) (sorted_reverse contourArea contours) []"


section \<open>The shared table\<close>

text \<open>
  C3, as the code has it. Storing under a timestamp always succeeds, whether or not the
  key is present, and leaves the new record under the key (there is no duplicate-key
  failure: a second store replaces the first); looking a timestamp up returns the record
  stored under it, or raises \<^verbatim>\<open>KeyError\<close> when there is none; and once a timestamp has been
  deleted, looking it up raises \<^verbatim>\<open>KeyError\<close>.
\<close>

theorem common_contract:
  "common_setitem common t fr = Inr (common(t \<mapsto> fr))
   \<and> (\<forall>common'. common_setitem common t fr = Inr common' \<longrightarrow> common_getitem common' t = Inr fr)
   \<and> (common_getitem common t = (case common t of None \<Rightarrow> Inl KeyError | Some r \<Rightarrow> Inr r))
   \<and> (\<forall>common'. common_delitem common t = Inr common' \<longrightarrow> common_getitem common' t = Inl KeyError)
   \<and> (common_delitem common t = Inl KeyError \<longleftrightarrow> common t = None)"
  by (auto simp: common_setitem_def common_getitem_def common_delitem_def split: option.splits)

theorem common_contract_witness:
  "common_setitem (Map.empty(5 \<mapsto> \<lparr>image_in = 1::nat, image_pre = 2\<rparr>)) 5 \<lparr>image_in = 3, image_pre = 4\<rparr>
     = Inr (Map.empty(5 \<mapsto> \<lparr>image_in = 3, image_pre = 4\<rparr>))
   \<and> common_getitem (Map.empty(5 \<mapsto> \<lparr>image_in = 3::nat, image_pre = 4\<rparr>)) 5
     = Inr \<lparr>image_in = 3, image_pre = 4\<rparr>
   \<and> common_delitem (Map.empty(5 \<mapsto> \<lparr>image_in = 3::nat, image_pre = 4\<rparr>)) 5 = Inr Map.empty
   \<and> common_getitem (Map.empty :: nat table) 5 = Inl KeyError"
  using common_contract [of "Map.empty(5 \<mapsto> \<lparr>image_in = 1::nat, image_pre = 2\<rparr>)" 5 "\<lparr>image_in = 3, image_pre = 4\<rparr>"]
    common_contract [of "Map.empty(5 \<mapsto> \<lparr>image_in = 3::nat, image_pre = 4\<rparr>)" 5 "\<lparr>image_in = 3, image_pre = 4\<rparr>"]
  by (simp add: common_setitem_def common_getitem_def common_delitem_def)

text \<open>
  C3 as the specification states it fails: storing under a timestamp that is already
  present does not fail, it replaces the record.
\<close>

theorem common_setitem_duplicate_counterexample:
  "common_setitem (Map.empty(5 \<mapsto> \<lparr>image_in = 1::nat, image_pre = 2\<rparr>)) 5 \<lparr>image_in = 3, image_pre = 4\<rparr>
     = Inr (Map.empty(5 \<mapsto> \<lparr>image_in = 3, image_pre = 4\<rparr>))
   \<and> (\<forall>e. common_setitem (Map.empty(5 \<mapsto> \<lparr>image_in = 1::nat, image_pre = 2\<rparr>)) 5 \<lparr>image_in = 3, image_pre = 4\<rparr>
     \<noteq> Inl e)"
  by (simp add: common_setitem_def)

section \<open>The detector stage\<close>

text \<open>
  C5. Whenever the classifier's detection call raises (so the frame of the timestamp
  was found in the table and the call was made), \<^verbatim>\<open>Detector.doTask\<close> prints its
  failure line and returns the empty list: it raises nothing itself.
\<close>

theorem Detector_classifier_failure:
  "common t = Some fr \<Longrightarrow> classifier (image_pre fr) = Inl e \<Longrightarrow>
   Detector_doTask classifier color common t = ([''Error in detector!!!!!!!!!!!!''], Inr [])"
  by (simp add: Detector_doTask_def common_getitem_def)

theorem Detector_classifier_failure_witness:
  "(Map.empty(5 \<mapsto> \<lparr>image_in = 1::nat, image_pre = 2\<rparr>)) (5::tstamp) = Some \<lparr>image_in = 1, image_pre = 2\<rparr>
   \<and> (\<lambda>i::nat. Inl CvError :: pyerr + box list) (image_pre \<lparr>image_in = 1::nat, image_pre = 2\<rparr>) = Inl CvError
   \<and> Detector_doTask (\<lambda>i. Inl CvError) (0::nat) (Map.empty(5 \<mapsto> \<lparr>image_in = 1::nat, image_pre = 2\<rparr>)) 5
     = ([''Error in detector!!!!!!!!!!!!''], Inr [])"
  using Detector_classifier_failure [of "Map.empty(5 \<mapsto> \<lparr>image_in = 1::nat, image_pre = 2\<rparr>)" 5
      "\<lparr>image_in = 1, image_pre = 2\<rparr>" "\<lambda>i. Inl CvError" CvError "0::nat"]
  by simp

text \<open>
  C8. For a timestamp that is not in the table (its entry was deleted, say), the
  lookup raises before \<^verbatim>\<open>rects\<close> is bound: \<^verbatim>\<open>Detector.doTask\<close> prints its failure line
  and then raises \<^verbatim>\<open>UnboundLocalError\<close> from the \<^verbatim>\<open>return\<close>, whatever the classifier.
\<close>

theorem Detector_lookup_failure:
  "common t = None \<Longrightarrow>
   Detector_doTask classifier color common t
     = ([''Error in detector!!!!!!!!!!!!''], Inl UnboundLocalError)"
  by (simp add: Detector_doTask_def common_getitem_def)

theorem Detector_lookup_failure_witness:
  "(Map.empty :: nat table) 5 = None
   \<and> Detector_doTask (\<lambda>i. Inr [(1, 2, 3, 4)]) (0::nat) (Map.empty :: nat table) 5
     = ([''Error in detector!!!!!!!!!!!!''], Inl UnboundLocalError)"
  using Detector_lookup_failure [of "Map.empty :: nat table" 5 "\<lambda>i. Inr [(1, 2, 3, 4)]" "0::nat"]
  by simp

section \<open>The aggregating stage\<close>

text \<open>
  A value chosen by the carry-forward branch is flattened once more. When the stored
  list starts with a rectangle whose first coordinate is an integer (any rectangle a
  detector produced), the second flattening yields that integer as first item, and
  unpacking it raises \<^verbatim>\<open>TypeError\<close> before anything is drawn.
\<close>

lemma flatten_error: "flatten xs = Inl e \<Longrightarrow> e = TypeError"
proof (induction xs)
  case Nil
  then show ?case by simp
next
  case (Cons x xs)
  then show ?case
    by (cases x) (auto split: sum.splits)
qed

lemma flatten_first:
  "py_iter item = Inr (PInt a # xs) \<Longrightarrow> flatten (item # rest) = Inr ys \<Longrightarrow> \<exists>zs. ys = PInt a # zs"
  by (auto split: sum.splits)

lemma draw_rects_int_first: "draw_rects common t (PInt a # zs) = ([], Some TypeError)"
  by simp

lemma Postprocessor_stale_rects_raise:
  assumes "\<not> truthy rects0" and "prev_rects self = item # rest"
    and "py_iter item = Inr (PInt a # xs)"
  shows "Postprocessor_doTask self common (t, rects0) = ([], Inl TypeError)"
proof (cases "flatten (item # rest)")
  case (Inl e)
  then have "e = TypeError" by (rule flatten_error)
  with Inl assms(1,2) show ?thesis
    by (simp add: Postprocessor_doTask_def)
next
  case (Inr ys)
  with assms(3) obtain zs where "ys = PInt a # zs"
    using flatten_first by blast
  with Inr assms(1,2) show ?thesis
    by (simp add: Postprocessor_doTask_def)
qed

text \<open>
  C1, at the specification's own scenario. The first frame arrives with one rectangle
  \<open>(10, 20, 30, 40)\<close> of colour \<open>(0, 255, 0)\<close> from one detector: it is drawn and stored.
  The second frame arrives with the empty tuple: the stored list is chosen, flattened
  again, and the method raises \<^verbatim>\<open>TypeError\<close>, having drawn nothing and stored nothing.
  The specification's outputs \<open>[rects_A, rects_A, rects_A, rects_B]\<close> are not produced.
\<close>

theorem Postprocessor_carry_forward_raises:
  "Postprocessor_doTask Postprocessor_init
       (Map.empty(1 \<mapsto> \<lparr>image_in = 0::nat, image_pre = 0\<rparr>, 2 \<mapsto> \<lparr>image_in = 0, image_pre = 0\<rparr>))
       (1, PTuple [PList [PTuple [PInt 10, PInt 20, PInt 30, PInt 40, PTuple [PInt 0, PInt 255, PInt 0]]]])
     = ([Rectangle 1 (PInt 10, PInt 20) (PInt 40, PInt 60) (PTuple [PInt 0, PInt 255, PInt 0])],
        Inr (\<lparr>prev_rects = [PTuple [PInt 10, PInt 20, PInt 30, PInt 40, PTuple [PInt 0, PInt 255, PInt 0]]]\<rparr>, 1))
   \<and> Postprocessor_doTask
       \<lparr>prev_rects = [PTuple [PInt 10, PInt 20, PInt 30, PInt 40, PTuple [PInt 0, PInt 255, PInt 0]]]\<rparr>
       (Map.empty(1 \<mapsto> \<lparr>image_in = 0::nat, image_pre = 0\<rparr>, 2 \<mapsto> \<lparr>image_in = 0, image_pre = 0\<rparr>))
       (2, PTuple [])
     = ([], Inl TypeError)"
  by (simp add: Postprocessor_doTask_def Postprocessor_init_def common_getitem_def)

text \<open>
  The other way for a frame to bring no rectangle: the detector's result is there and is
  the empty list. The task's value \<open>([],)\<close> is not empty, so nothing is carried
  forward: nothing is drawn, and the stored rectangles are replaced by the empty list.
\<close>

lemma Postprocessor_no_detection_forgets:
  "Postprocessor_doTask
       \<lparr>prev_rects = [PTuple [PInt 10, PInt 20, PInt 30, PInt 40, PTuple [PInt 0, PInt 255, PInt 0]]]\<rparr>
       (Map.empty(2 \<mapsto> \<lparr>image_in = 0::nat, image_pre = 0\<rparr>))
       (2, PTuple [PList []])
     = ([], Inr (\<lparr>prev_rects = []\<rparr>, 2))"
  by (simp add: Postprocessor_doTask_def)

section \<open>The stalling stage\<close>

text \<open>
  C6. With \<open>elapsed = now - tstamp\<close> and a minimum age of two seconds: when
  \<open>elapsed\<close> is less than the minimum age, \<^verbatim>\<open>Staller.doTask\<close> sleeps once, for exactly the
  minimum age less \<open>elapsed\<close>, and then returns the timestamp; when \<open>elapsed\<close> is at
  least the minimum age, it returns the timestamp without sleeping.
\<close>

theorem Staller_minimum_age:
  "(now - t < 2000000 \<longrightarrow> Staller_doTask now (t, results) = ([2000000 - (now - t)], t))
   \<and> (2000000 \<le> now - t \<longrightarrow> Staller_doTask now (t, results) = ([], t))"
  by (simp add: Staller_doTask_def Let_def)

theorem Staller_minimum_age_witness:
  "(1100000 - 1000000 < (2000000::int)
      \<and> Staller_doTask 1100000 (1000000, ()) = ([1900000], 1000000))
   \<and> ((2000000::int) \<le> 3500000 - 1000000
      \<and> Staller_doTask 3500000 (1000000, ()) = ([], 1000000))"
  using Staller_minimum_age [of 1100000 1000000 "()"] Staller_minimum_age [of 3500000 1000000 "()"]
  by simp

section \<open>The status stage\<close>

declare show_nat.simps [simp del]















text \<open>
  The conversion on some values, the ties \<open>0.0625\<close> and \<open>0.1875\<close> among them, and the
  line of the first frame: one tick in each of the windows of 1, 5 and 10 seconds.
\<close>

lemma floor_rat_numeral: "\<lfloor>(numeral a :: rat) / numeral b\<rfloor> = numeral a div numeral b"
  by (metis floor_divide_of_int_eq of_int_numeral)

lemma round_half_even_examples:
  "round_half_even (1000 / 3) = 333" "round_half_even (125 / 2) = 62"
  "round_half_even (375 / 2) = 188" "round_half_even 12500 = 12500"
  "round_half_even 1000 = 1000" "round_half_even 200 = 200" "round_half_even 100 = 100"
  by (simp_all add: round_half_even_def Let_def floor_rat_numeral)

lemma show_nat_examples:
  "show_nat 0 = ''0''" "show_nat 1 = ''1''" "show_nat (Suc 0) = ''1''" "show_nat 12 = ''12''"
  "show_nat 62 = ''62''" "show_nat 100 = ''100''" "show_nat 188 = ''188''"
  "show_nat 200 = ''200''" "show_nat 333 = ''333''" "show_nat 500 = ''500''"
  by (simp_all add: show_nat.simps digit_def)

lemma replicate_2: "replicate 2 c = [c, c]"
  by (simp add: numeral_2_eq_2)

lemma format_05_3f_examples:
  "format_05_3f (1 / 3) = ''0.333''"
  "format_05_3f (1 / 16) = ''0.062''"
  "format_05_3f (3 / 16) = ''0.188''"
  "format_05_3f (25 / 2) = ''12.500''"
  "format_05_3f 1 = ''1.000''"
  "format_05_3f (1 / 5) = ''0.200''"
  "format_05_3f (1 / 10) = ''0.100''"
  by (simp_all add: format_05_3f_def Let_def round_half_even_examples show_nat_examples
      replicate_2)

lemma printStatus_first_frame:
  "fst (printStatus framerate 5 7) = ([''1.000, 0.200, 0.100''], Inr 7)"
  by (simp add: printStatus_def framerate_def RateTicker_def tick_def format_status_def
      format_05_3f_examples)

section \<open>Shutting the pipelines down\<close>

lemma stop_detectors_append:
  "stop_detectors pipes ops = ops @ concat (map (\<lambda>pipe. [Put pipe None, Drain pipe]) pipes)"
  by (induction pipes arbitrary: ops) simp_all

text \<open>
  C4. After the capture loop the main program performs, in this order and nothing
  else: the stop task into the image processing pipeline; the draining of the reclaiming
  pipeline; for each detector pipeline in turn, the stop task into it and then its
  draining; the stop task into the viewer's pipeline and then its draining.
\<close>

theorem shutdown_order:
  "shutdown n ops0 =
     ops0 @ [Put Pipe_iproc None, Drain Pipe_pull]
       @ concat (map (\<lambda>i. [Put (Detector_pipe i) None, Drain (Detector_pipe i)]) [0..<n])
       @ [Put Pipe_viewer None, Drain Pipe_viewer]"
  by (simp add: shutdown_def detector_pipes_def stop_detectors_append map_concat comp_def)

text \<open>With two classifiers, from the start:\<close>

lemma shutdown_two_detectors:
  "shutdown 2 [] =
     [Put Pipe_iproc None, Drain Pipe_pull,
      Put (Detector_pipe 0) None, Drain (Detector_pipe 0),
      Put (Detector_pipe 1) None, Drain (Detector_pipe 1),
      Put Pipe_viewer None, Drain Pipe_viewer]"
  by (simp add: shutdown_def detector_pipes_def upt_rec)

section \<open>Preprocessing, in place and as a function\<close>

text \<open>
  C9. After \<^verbatim>\<open>preprocess(image_in, image_out)\<close> the output array holds the image
  that \<^verbatim>\<open>preprocess2\<close> returns for the contents of the input array, the equalised
  grayscale version of the input.
\<close>

theorem preprocess_refines_preprocess2:
  "preprocess bgr2gray equalize h array_in array_out array_out
     = preprocess2 bgr2gray equalize (h array_in)
   \<and> preprocess2 bgr2gray equalize (h array_in) = equalize (bgr2gray (h array_in))"
  by (simp add: preprocess_def preprocess2_def transform_into_def)

text \<open>No other array is written.\<close>

lemma preprocess_frame:
  "r \<noteq> array_out \<Longrightarrow> preprocess bgr2gray equalize h array_in array_out r = h r"
  by (simp add: preprocess_def transform_into_def)

section \<open>Filtering the contours\<close>

lemma filter_contours_takeWhile:
  "filter_contours f thr xs acc = acc @ takeWhile (\<lambda>c. \<not> f c < thr) xs"
  by (induction xs arbitrary: acc) auto

lemma sorted_reverse_desc: "sorted (rev (map key (sorted_reverse key xs)))"
  by (simp add: sorted_reverse_def rev_map)

lemma takeWhile_filter_desc:
  "sorted (rev (map f xs)) \<Longrightarrow> takeWhile (\<lambda>c. \<not> f c < (thr::rat)) xs = filter (\<lambda>c. thr \<le> f c) xs"
proof (induction xs)
  case Nil
  then show ?case by simp
next
  case (Cons x xs)
  from Cons.prems have sx: "sorted (rev (map f xs))" and le: "\<forall>y\<in>set xs. f y \<le> f x"
    by (auto simp: sorted_append)
  show ?case
  proof (cases "f x < thr")
    case True
    with le have "\<forall>y\<in>set xs. \<not> thr \<le> f y" by auto
    then have "filter (\<lambda>c. thr \<le> f c) xs = []" by (simp add: filter_empty_conv)
    with True show ?thesis by simp
  next
    case False
    with Cons.IH [OF sx] show ?thesis by simp
  qed
qed

lemma mset_sorted_reverse: "mset (sorted_reverse key xs) = mset xs"
  by (simp add: sorted_reverse_def)

text \<open>
  C10. The filtered collection is the sorted list of contours restricted to those
  whose area is at least the threshold, and it holds every contour of the input whose
  area is at least the threshold as many times as the input does, and no other: the
  \<^verbatim>\<open>break\<close> neither omits a contour that qualifies nor admits one that does not.
\<close>

theorem postprocess_filtered_exact:
  "postprocess_filtered contourArea rows cols contours
     = filter (\<lambda>c. area_threshold rows cols \<le> contourArea c) (sorted_reverse contourArea contours)
   \<and> mset (postprocess_filtered contourArea rows cols contours)
     = filter_mset (\<lambda>c. area_threshold rows cols \<le> contourArea c) (mset contours)"
  by (simp add: postprocess_filtered_def filter_contours_takeWhile
      takeWhile_filter_desc [OF sorted_reverse_desc] mset_sorted_reverse)

text \<open>
  Five contours, numbered, on an image of 200 by 200 pixels, whose threshold is 1: the
  contour of area one half is left out, and the two of area 3 keep their order.
\<close>

lemma postprocess_filtered_example:
  "postprocess_filtered snd 200 200 [(1::nat, 3), (2, 5), (3, 3), (4, 1 / 2), (5, 1)]
     = [(2, 5), (1, 3), (3, 3), (5, 1)]"
  by (simp add: postprocess_filtered_def sorted_reverse_def area_threshold_def)

end
